theory Spec2Isabelle
  imports Complex_Main
begin

section \<open>Hand-gesture classification (useHandGesture)\<close>

text \<open>
  JavaScript numbers are modelled as real numbers: every value is finite and arithmetic
  is exact. \<open>Math.sqrt\<close>, \<open>Math.sin\<close>, \<open>Math.cos\<close> and \<open>Math.exp\<close> are the real
  functions of the same name, and \<open>Math.pow(a, 2)\<close> is the square.
\<close>

datatype GestureType = none | fist | open_g | pinch | pointing

text \<open>A landmark of the tracker: an object with the numeric fields x, y and z.\<close>

record Landmark =
  lm_x :: real
  lm_y :: real
  lm_z :: real

text \<open>
  Reading a field of \<open>landmarks[i]\<close> with \<open>i\<close> beyond the array is a property access
  on \<open>undefined\<close>, which throws a TypeError.
\<close>

datatype js_error = TypeError

definition calculateFingerDistance :: "Landmark list \<Rightarrow> nat \<Rightarrow> nat \<Rightarrow> js_error + real" where
  "calculateFingerDistance landmarks finger1 finger2 =
     (if finger1 < length landmarks \<and> finger2 < length landmarks then
        (let p1 = landmarks ! finger1;
             p2 = landmarks ! finger2
         in Inr (sqrt ((lm_x p1 - lm_x p2)\<^sup>2 + (lm_y p1 - lm_y p2)\<^sup>2 + (lm_z p1 - lm_z p2)\<^sup>2)))
      else Inl TypeError)"

text \<open>
  \<open>detectGesture\<close>: the argument is \<open>None\<close> for a null or undefined array. The branches
  are in the order of the source: short input, pinch, open, fist, pointing, none.
\<close>

definition detectGesture :: "Landmark list option \<Rightarrow> js_error + GestureType" where
  "detectGesture landmarks_opt =
     (case landmarks_opt of
        None \<Rightarrow> Inr none
      | Some landmarks \<Rightarrow>
          if length landmarks < 21 then Inr none
          else
            (let indexTip = landmarks ! 8;
                 middleTip = landmarks ! 12;
                 ringTip = landmarks ! 16;
                 pinkyTip = landmarks ! 20;
                 indexMcp = landmarks ! 5;
                 middleMcp = landmarks ! 9;
                 ringMcp = landmarks ! 13;
                 pinkyMcp = landmarks ! 17
             in case calculateFingerDistance landmarks 4 8 of
                  Inl e \<Rightarrow> Inl e
                | Inr pinchDist \<Rightarrow>
                    if pinchDist < 0.06 then Inr pinch
                    else
                      (let indexExtended = lm_y indexTip < lm_y indexMcp;
                           middleExtended = lm_y middleTip < lm_y middleMcp;
                           ringExtended = lm_y ringTip < lm_y ringMcp;
                           pinkyExtended = lm_y pinkyTip < lm_y pinkyMcp;
                           extendedCount = length (filter id
                             [indexExtended, middleExtended, ringExtended, pinkyExtended])
                       in if extendedCount \<ge> 3 then Inr open_g
                          else if extendedCount \<le> 1 then Inr fist
                          else if indexExtended \<and> \<not> middleExtended \<and> \<not> ringExtended
                                  \<and> \<not> pinkyExtended then Inr pointing
                          else Inr none)))"

subsection \<open>The tracker callback\<close>

record HandGestureState =
  gesture :: GestureType
  handPosition :: "(real \<times> real) option"
  pinchDistance :: real
  isTracking :: bool

text \<open>
  The state of the hook that \<open>onResults\<close> touches: the React state, the ref holding the
  last gesture, and the arguments with which \<open>onGestureChange\<close> has been called so far
  (oldest first).
\<close>

record Hook =
  hookState :: HandGestureState
  lastGestureRef :: GestureType
  gestureChanges :: "GestureType list"

definition initialHook :: Hook where
  "initialHook =
     \<lparr>hookState = \<lparr>gesture = none, handPosition = None, pinchDistance = 1, isTracking = False\<rparr>,
      lastGestureRef = none,
      gestureChanges = []\<rparr>"

text \<open>
  \<open>onResults\<close>: \<open>results\<close> is the field \<open>multiHandLandmarks\<close> (\<open>None\<close> when it is
  missing); \<open>hasCallback\<close> says whether the optional \<open>onGestureChange\<close> was supplied.
\<close>

definition onResults :: "bool \<Rightarrow> Landmark list list option \<Rightarrow> Hook \<Rightarrow> js_error + Hook" where
  "onResults hasCallback results h =
     (case results of
        Some (landmarks # others) \<Rightarrow>
          (case detectGesture (Some landmarks) of
             Inl e \<Rightarrow> Inl e
           | Inr g \<Rightarrow>
               if 9 < length landmarks then
                 (let palmCenter = landmarks ! 9;
                      handPos = (1 - lm_x palmCenter, lm_y palmCenter)
                  in case calculateFingerDistance landmarks 4 8 of
                       Inl e \<Rightarrow> Inl e
                     | Inr pinchDist \<Rightarrow>
                         (let h1 = (if g \<noteq> lastGestureRef h
                                    then h\<lparr>lastGestureRef := g,
                                           gestureChanges := gestureChanges h @ (if hasCallback then [g] else [])\<rparr>
                                    else h)
                          in Inr (h1\<lparr>hookState := (hookState h1)\<lparr>gesture := g,
                                      handPosition := Some handPos,
                                      pinchDistance := pinchDist,
                                      isTracking := True\<rparr>\<rparr>)))
               else Inl TypeError)
      | _ \<Rightarrow> Inr (h\<lparr>hookState := (hookState h)\<lparr>isTracking := False, handPosition := None\<rparr>\<rparr>))"

text \<open>The tracker calls \<open>onResults\<close> once per frame; an exception ends the run.\<close>

fun runFrames :: "bool \<Rightarrow> Hook \<Rightarrow> Landmark list list option list \<Rightarrow> js_error + Hook" where
  "runFrames hasCallback h [] = Inr h"
| "runFrames hasCallback h (results # rest) =
     (case onResults hasCallback results h of
        Inl e \<Rightarrow> Inl e
      | Inr h1 \<Rightarrow> runFrames hasCallback h1 rest)"

text \<open>Synthetic hands: thumb tip and index tip one unit apart, knuckles at height 0.5.\<close>

definition mkHand :: "real \<Rightarrow> real \<Rightarrow> real \<Rightarrow> real \<Rightarrow> Landmark list" where
  "mkHand indexY middleY ringY pinkyY =
     (let P = (\<lambda>a b. \<lparr>lm_x = a, lm_y = b, lm_z = 0\<rparr>)
      in [P 0 0.9, P 0 0.8, P 0 0.7, P 0 0.6, P 0 0.5,
          P 1 0.5, P 1 0.4, P 1 0.3, P 1 indexY,
          P 2 0.5, P 2 0.4, P 2 0.3, P 2 middleY,
          P 3 0.5, P 3 0.4, P 3 0.3, P 3 ringY,
          P 4 0.5, P 4 0.4, P 4 0.3, P 4 pinkyY])"

definition openHand :: "Landmark list" where
  "openHand = mkHand 0.2 0.2 0.2 0.2"

definition fistHand :: "Landmark list" where
  "fistHand = mkHand 0.6 0.6 0.6 0.6"

definition pointingHand :: "Landmark list" where
  "pointingHand = mkHand 0.2 0.6 0.6 0.6"

definition pinchHand :: "Landmark list" where
  "pinchHand = replicate 21 \<lparr>lm_x = 0, lm_y = 0, lm_z = 0\<rparr>"

definition sixFrames :: "Landmark list list" where
  "sixFrames = [fistHand, fistHand, fistHand, openHand, openHand, fistHand]"


section \<open>Photo cards: the spring engine (PhotoCardMesh)\<close>

text \<open>
  \<open>THREE.Vector3\<close> with the methods the frame callback uses, after the library's
  definitions: \<open>distanceTo\<close> is the square root of \<open>distanceToSquared\<close>, \<open>length\<close> the
  square root of the sum of the squared components.
\<close>

record Vector3 =
  vx :: real
  vy :: real
  vz :: real

definition Vector3_new :: "real \<times> real \<times> real \<Rightarrow> Vector3" where
  "Vector3_new t = (case t of (a, b, c) \<Rightarrow> \<lparr>vx = a, vy = b, vz = c\<rparr>)"

definition subVectors :: "Vector3 \<Rightarrow> Vector3 \<Rightarrow> Vector3" where
  "subVectors a b = \<lparr>vx = vx a - vx b, vy = vy a - vy b, vz = vz a - vz b\<rparr>"

definition multiplyScalar :: "Vector3 \<Rightarrow> real \<Rightarrow> Vector3" where
  "multiplyScalar v s = \<lparr>vx = vx v * s, vy = vy v * s, vz = vz v * s\<rparr>"

definition add_v :: "Vector3 \<Rightarrow> Vector3 \<Rightarrow> Vector3" where
  "add_v a b = \<lparr>vx = vx a + vx b, vy = vy a + vy b, vz = vz a + vz b\<rparr>"

definition distanceToSquared :: "Vector3 \<Rightarrow> Vector3 \<Rightarrow> real" where
  "distanceToSquared a b =
     (let dx = vx a - vx b; dy = vy a - vy b; dz = vz a - vz b
      in dx * dx + dy * dy + dz * dz)"

definition distanceTo :: "Vector3 \<Rightarrow> Vector3 \<Rightarrow> real" where
  "distanceTo a b = sqrt (distanceToSquared a b)"

definition length_v :: "Vector3 \<Rightarrow> real" where
  "length_v v = sqrt (vx v * vx v + vy v * vy v + vz v * vz v)"

datatype TreeState = tree | galaxy

record SpringState =
  position :: Vector3
  velocity :: Vector3
  scale :: real
  scaleVelocity :: real

definition SPRING_STIFFNESS :: real where "SPRING_STIFFNESS = 25"
definition SPRING_DAMPING :: real where "SPRING_DAMPING = 8"
definition SCALE_STIFFNESS :: real where "SCALE_STIFFNESS = 30"
definition SCALE_DAMPING :: real where "SCALE_DAMPING = 10"

text \<open>The props of one card that the frame callback reads.\<close>

record PhotoCardProps =
  cardTreePosition :: "real \<times> real \<times> real"
  cardGalaxyPosition :: "real \<times> real \<times> real"
  state :: TreeState
  isFocused :: bool

text \<open>
  The rendered group: its position and scale. \<open>lookAt\<close> only turns the group and is
  left out.
\<close>

record Mesh =
  meshPosition :: Vector3
  meshScale :: Vector3

text \<open>The refs of one card; \<open>meshRef\<close> is \<open>None\<close> while the group is not mounted.\<close>

record PhotoCardRefs =
  meshRef :: "Mesh option"
  timeRef :: real
  springRef :: SpringState
  needsUpdateRef :: bool
  prevStateRef :: TreeState
  prevFocusedRef :: bool
  frameCountRef :: nat

text \<open>
  The frame callback of \<open>PhotoCardMesh\<close>, in the parts of its body: the target of the
  frame, the settle test, the two spring integrations, and the callback that puts them
  together.
\<close>

definition targetPos :: "PhotoCardProps \<Rightarrow> Vector3" where
  "targetPos props =
     (if isFocused props then \<lparr>vx = 0, vy = 0, vz = 0.8\<rparr>
      else if state props = tree then Vector3_new (cardTreePosition props)
      else Vector3_new (cardGalaxyPosition props))"

definition targetScale :: "PhotoCardProps \<Rightarrow> real" where
  "targetScale props = (if isFocused props then 5 else 0.4)"

definition settled :: "PhotoCardProps \<Rightarrow> SpringState \<Rightarrow> bool" where
  "settled props spring =
     (let positionDelta = distanceTo (position spring) (targetPos props);
          scaleDelta = \<bar>scale spring - targetScale props\<bar>;
          velocityMag = length_v (velocity spring)
      in positionDelta < 0.01 \<and> scaleDelta < 0.01 \<and> velocityMag < 0.01)"

definition springStep :: "PhotoCardProps \<Rightarrow> real \<Rightarrow> SpringState \<Rightarrow> SpringState" where
  "springStep props dt spring =
     (let displacement = subVectors (position spring) (targetPos props);
          springForce = multiplyScalar displacement (- SPRING_STIFFNESS);
          dampingForce = multiplyScalar (velocity spring) (- SPRING_DAMPING);
          acceleration = add_v springForce dampingForce;
          velocity1 = add_v (velocity spring) (multiplyScalar acceleration dt);
          position1 = add_v (position spring) (multiplyScalar velocity1 dt);
          scaleDisplacement = scale spring - targetScale props;
          scaleSpringForce = - SCALE_STIFFNESS * scaleDisplacement;
          scaleDampingForce = - SCALE_DAMPING * scaleVelocity spring;
          scaleAcceleration = scaleSpringForce + scaleDampingForce;
          scaleVelocity1 = scaleVelocity spring + scaleAcceleration * dt;
          scale1 = scale spring + scaleVelocity1 * dt
      in \<lparr>position = position1, velocity = velocity1,
          scale = scale1, scaleVelocity = scaleVelocity1\<rparr>)"

definition PhotoCardMesh_useFrame :: "PhotoCardProps \<Rightarrow> real \<Rightarrow> PhotoCardRefs \<Rightarrow> PhotoCardRefs" where
  "PhotoCardMesh_useFrame props delta r =
     (case meshRef r of
        None \<Rightarrow> r
      | Some mesh \<Rightarrow>
          (let r1 = r\<lparr>frameCountRef := frameCountRef r + 1\<rparr>;
               r2 = (if prevStateRef r1 \<noteq> state props \<or> prevFocusedRef r1 \<noteq> isFocused props
                     then r1\<lparr>needsUpdateRef := True, prevStateRef := state props,
                             prevFocusedRef := isFocused props\<rparr>
                     else r1);
               spring = springRef r2;
               dt = min delta 0.033;
               r3 = r2\<lparr>timeRef := timeRef r2 + dt\<rparr>
           in if settled props spring then
                r3\<lparr>needsUpdateRef := False,
                   meshRef := Some
                     (if frameCountRef r3 mod 4 = 0 \<and> \<not> isFocused props
                      then mesh\<lparr>meshPosition := (meshPosition mesh)
                             \<lparr>vy := vy (position spring) + sin (timeRef r3 * 0.5) * 0.005\<rparr>\<rparr>
                      else mesh)\<rparr>
              else
                (let spring1 = springStep props dt spring;
                     meshPos = (if \<not> isFocused props
                                then (position spring1)
                                  \<lparr>vy := vy (position spring1) + sin (timeRef r3 * 0.5) * 0.005\<rparr>
                                else position spring1)
                 in r3\<lparr>springRef := spring1,
                       meshRef := Some \<lparr>meshPosition = meshPos,
                                         meshScale = \<lparr>vx = scale spring1, vy = scale spring1, vz = 1\<rparr>\<rparr>\<rparr>)))"

text \<open>Successive frames with unchanged props, one frame time per call.\<close>

fun PhotoCardMesh_frames :: "PhotoCardProps \<Rightarrow> real list \<Rightarrow> PhotoCardRefs \<Rightarrow> PhotoCardRefs" where
  "PhotoCardMesh_frames props [] r = r"
| "PhotoCardMesh_frames props (delta # deltas) r =
     PhotoCardMesh_frames props deltas (PhotoCardMesh_useFrame props delta r)"

text \<open>A mounted card at rest one unit away from its tree position, in tree state.\<close>

definition cardProps :: PhotoCardProps where
  "cardProps = \<lparr>cardTreePosition = (0, 0, 0), cardGalaxyPosition = (4, 5, 6),
                state = tree, isFocused = False\<rparr>"

definition cardRefs :: PhotoCardRefs where
  "cardRefs =
     \<lparr>meshRef = Some \<lparr>meshPosition = \<lparr>vx = 1, vy = 0, vz = 0\<rparr>,
                       meshScale = \<lparr>vx = 0.5, vy = 0.5, vz = 1\<rparr>\<rparr>,
      timeRef = 0,
      springRef = \<lparr>position = \<lparr>vx = 1, vy = 0, vz = 0\<rparr>,
                   velocity = \<lparr>vx = 0, vy = 0, vz = 0\<rparr>,
                   scale = 0.4, scaleVelocity = 0\<rparr>,
      needsUpdateRef = True, prevStateRef = tree, prevFocusedRef = False,
      frameCountRef = 0\<rparr>"

text \<open>The same card settled on its tree position.\<close>

definition restingRefs :: PhotoCardRefs where
  "restingRefs = cardRefs\<lparr>springRef := (springRef cardRefs)\<lparr>position := \<lparr>vx = 0, vy = 0, vz = 0\<rparr>\<rparr>\<rparr>"

section \<open>Particles: the staggered interpolation (ParticleSystem)\<close>

text \<open>
  The fields of a particle that decide its position; colour and size are left out.
\<close>

record Particle =
  treePosition :: "real \<times> real \<times> real"
  galaxyPosition :: "real \<times> real \<times> real"
  phase :: real
  speed :: real
  delay :: real

text \<open>The interpolated \<open>x\<close>, \<open>y\<close>, \<open>z\<close> of the loop body, for a transition progress.\<close>

definition staggeredLerp :: "real \<Rightarrow> Particle \<Rightarrow> real \<times> real \<times> real" where
  "staggeredLerp progress particle =
     (case (treePosition particle, galaxyPosition particle) of
        ((t0, t1, t2), (g0, g1, g2)) \<Rightarrow>
          (let staggeredProgress = max 0 (min 1 (progress * 1.5 - delay particle * 0.5));
               smoothProgress = staggeredProgress * staggeredProgress * (3 - 2 * staggeredProgress)
           in (t0 + (g0 - t0) * smoothProgress,
               t1 + (g1 - t1) * smoothProgress,
               t2 + (g2 - t2) * smoothProgress)))"

text \<open>
  The frame callback of \<open>ParticleSystem\<close> on a mounted mesh: the time advances by
  \<open>delta\<close>, and every particle is placed at its interpolated position with the breathing
  offset on \<open>y\<close>. The result is the new time and the positions written to the instanced
  mesh, one per particle.
\<close>

definition ParticleSystem_useFrame ::
    "real \<Rightarrow> real \<Rightarrow> Particle list \<Rightarrow> real \<Rightarrow> real \<times> (real \<times> real \<times> real) list" where
  "ParticleSystem_useFrame progress delta particleData time0 =
     (let time1 = time0 + delta
      in (time1,
          map (\<lambda>particle.
                 case staggeredLerp progress particle of
                   (x, y, z) \<Rightarrow>
                     (let breathe = sin (time1 * speed particle + phase particle) * 0.02
                      in (x, y + breathe, z)))
              particleData))"

definition scenarioParticle :: "real \<Rightarrow> real \<Rightarrow> Particle" where
  "scenarioParticle ph sp =
     \<lparr>treePosition = (1, 2, 3), galaxyPosition = (4, 5, 6), phase = ph, speed = sp, delay = 0.2\<rparr>"

section \<open>Camera smoothing (CameraController)\<close>

record CameraProps =
  cameraState :: TreeState
  orbitRotation :: "real \<times> real"
  cameraHandPosition :: "(real \<times> real) option"

text \<open>The target of the camera for the given props, as the frame callback computes it.\<close>

definition cameraTarget :: "CameraProps \<Rightarrow> Vector3" where
  "cameraTarget props =
     (case orbitRotation props of
        (orbitX, orbitY) \<Rightarrow>
          (let baseDistance = (if cameraState props = tree then 12 else 18);
               targetXY = (case cameraHandPosition props of
                             Some (handX, handY) \<Rightarrow>
                               if cameraState props = galaxy
                               then ((handX - 0.5) * 20, (0.5 - handY) * 10 + 2)
                               else (sin orbitY * baseDistance, sin orbitX * 5 + 2)
                           | None \<Rightarrow> (sin orbitY * baseDistance, sin orbitX * 5 + 2));
               targetZ = cos orbitY * baseDistance
           in \<lparr>vx = fst targetXY, vy = snd targetXY, vz = targetZ\<rparr>))"

text \<open>One call of the frame callback: \<open>positionRef\<close> before, \<open>positionRef\<close> after.\<close>

definition CameraController_useFrame :: "CameraProps \<Rightarrow> real \<Rightarrow> Vector3 \<Rightarrow> Vector3" where
  "CameraController_useFrame props delta positionRef =
     (let target = cameraTarget props;
          smoothFactor = 1 - exp (- 4 * delta)
      in \<lparr>vx = vx positionRef + (vx target - vx positionRef) * smoothFactor,
          vy = vy positionRef + (vy target - vy positionRef) * smoothFactor,
          vz = vz positionRef + (vz target - vz positionRef) * smoothFactor\<rparr>)"

section \<open>Layout: ornament positions (generateOrnamentPosition)\<close>

text \<open>
  \<open>Math.random()\<close> is an argument: \<open>rnd\<close> is the number drawn by the one call in the
  function body, a value in the interval from 0 (included) to 1 (excluded).
\<close>

definition ornamentAngle :: "nat \<Rightarrow> real \<Rightarrow> real" where
  "ornamentAngle index rnd = real index * pi * 2.4 + rnd * 0.5"

definition generateOrnamentPosition :: "nat \<Rightarrow> nat \<Rightarrow> real \<Rightarrow> real \<times> real \<times> real" where
  "generateOrnamentPosition index total_n rnd =
     (let height = 7;
          maxRadius = 3.2;
          t = (real index + 0.5) / real total_n;
          y = t * height - height / 2;
          layerRadius = maxRadius * (1 - t * 0.9);
          angle = ornamentAngle index rnd
      in (cos angle * layerRadius * 0.85, y, sin angle * layerRadius * 0.85))"

section \<open>Properties of the classifier\<close>

text \<open>The synthetic hands have 21 landmarks, and their thumb and index tips are far apart.\<close>

lemma far_apart: "\<not> sqrt (1 + t\<^sup>2) < 0.06"
proof -
  have "1 \<le> sqrt (1 + t\<^sup>2)" by (rule real_le_rsqrt) simp
  moreover have "(0.06::real) < 1" by simp
  ultimately show ?thesis by linarith
qed

lemma length_mkHand: "length (mkHand a b c d) = 21"
  by (simp add: mkHand_def Let_def)

lemma dist_mkHand: "calculateFingerDistance (mkHand a b c d) 4 8 = Inr (sqrt (1 + (0.5 - a)\<^sup>2))"
  by (simp add: calculateFingerDistance_def mkHand_def Let_def)

lemma detectGesture_mkHand:
  "detectGesture (Some (mkHand a b c d)) =
     (let n = length (filter id [a < 0.5, b < 0.5, c < 0.5, d < 0.5])
      in if 3 \<le> n then Inr open_g else if n \<le> 1 then Inr fist else Inr none)"
  unfolding detectGesture_def
  apply (simp only: option.case length_mkHand dist_mkHand sum.case far_apart Let_def if_False)
  apply (simp add: mkHand_def Let_def)
  done

lemma detectGesture_pinchHand: "detectGesture (Some pinchHand) = Inr pinch"
  by (simp add: detectGesture_def calculateFingerDistance_def pinchHand_def)

text \<open>The classifier never throws, and a label other than \<open>none\<close> needs all 21 landmarks.\<close>

lemma detectGesture_total: "\<exists>g. detectGesture l = Inr g"
  by (cases l) (auto simp: detectGesture_def calculateFingerDistance_def Let_def)

lemma detectGesture_short: "detectGesture (Some l) = Inr g \<Longrightarrow> g \<noteq> none \<Longrightarrow> 21 \<le> length l"
  by (auto simp: detectGesture_def split: if_splits)

text \<open>
  With thumb and index tips at least 0.06 apart: four extended fingers give \<open>open\<close>, no
  extended finger gives \<open>fist\<close>, and the index finger alone also gives \<open>fist\<close>, because
  the test \<open>extendedCount \<le> 1\<close> comes before the test for pointing.
\<close>

lemma detectGesture_all_extended:
  assumes "21 \<le> length lms" and "calculateFingerDistance lms 4 8 = Inr d" and "0.06 \<le> d"
    and "lm_y (lms ! 8) < lm_y (lms ! 5)" and "lm_y (lms ! 12) < lm_y (lms ! 9)"
    and "lm_y (lms ! 16) < lm_y (lms ! 13)" and "lm_y (lms ! 20) < lm_y (lms ! 17)"
  shows "detectGesture (Some lms) = Inr open_g"
  using assms by (simp add: detectGesture_def Let_def)

lemma detectGesture_none_extended:
  assumes "21 \<le> length lms" and "calculateFingerDistance lms 4 8 = Inr d" and "0.06 \<le> d"
    and "\<not> lm_y (lms ! 8) < lm_y (lms ! 5)" and "\<not> lm_y (lms ! 12) < lm_y (lms ! 9)"
    and "\<not> lm_y (lms ! 16) < lm_y (lms ! 13)" and "\<not> lm_y (lms ! 20) < lm_y (lms ! 17)"
  shows "detectGesture (Some lms) = Inr fist"
  using assms by (simp add: detectGesture_def Let_def)

lemma detectGesture_only_index:
  assumes "21 \<le> length lms" and "calculateFingerDistance lms 4 8 = Inr d" and "0.06 \<le> d"
    and "lm_y (lms ! 8) < lm_y (lms ! 5)" and "\<not> lm_y (lms ! 12) < lm_y (lms ! 9)"
    and "\<not> lm_y (lms ! 16) < lm_y (lms ! 13)" and "\<not> lm_y (lms ! 20) < lm_y (lms ! 17)"
  shows "detectGesture (Some lms) = Inr fist"
  using assms by (simp add: detectGesture_def Let_def)

text \<open>
  Claim C1 says that a hand whose thumb and index tips are at least 0.06 apart is
  classified \<open>open\<close> when all four fingertips are above their knuckles, \<open>fist\<close> when none
  is, and \<open>pointing\<close> when only the index fingertip is. The first two hold (the lemmas
  above). The third does not: on the hand \<open>pointingHand\<close>, with 21 landmarks, thumb and
  index tips more than 0.06 apart and only the index fingertip above its knuckle, the
  classifier returns \<open>fist\<close>.
\<close>

theorem only_index_extended_is_fist:
  "length pointingHand = 21
   \<and> (\<exists>d. calculateFingerDistance pointingHand 4 8 = Inr d \<and> 0.06 \<le> d)
   \<and> lm_y (pointingHand ! 8) < lm_y (pointingHand ! 5)
   \<and> \<not> lm_y (pointingHand ! 12) < lm_y (pointingHand ! 9)
   \<and> \<not> lm_y (pointingHand ! 16) < lm_y (pointingHand ! 13)
   \<and> \<not> lm_y (pointingHand ! 20) < lm_y (pointingHand ! 17)
   \<and> detectGesture (Some pointingHand) = Inr fist
   \<and> detectGesture (Some pointingHand) \<noteq> Inr pointing"
proof -
  have d: "\<exists>d. calculateFingerDistance pointingHand 4 8 = Inr d \<and> 0.06 \<le> d"
    using far_apart [of "0.5 - 0.2"] by (simp add: pointingHand_def dist_mkHand)
  have g: "detectGesture (Some pointingHand) = Inr fist"
    by (simp add: pointingHand_def detectGesture_mkHand)
  have y: "lm_y (pointingHand ! 8) < lm_y (pointingHand ! 5)
   \<and> \<not> lm_y (pointingHand ! 12) < lm_y (pointingHand ! 9)
   \<and> \<not> lm_y (pointingHand ! 16) < lm_y (pointingHand ! 13)
   \<and> \<not> lm_y (pointingHand ! 20) < lm_y (pointingHand ! 17)"
    by (simp add: pointingHand_def mkHand_def)
  show ?thesis using d g y by (simp add: pointingHand_def length_mkHand)
qed

lemma detectGesture_range: "range detectGesture = Inr ` {none, fist, open_g, pinch}"
proof
  show "range detectGesture \<subseteq> Inr ` {none, fist, open_g, pinch}"
  proof
    fix r assume "r \<in> range detectGesture"
    then obtain l where r: "r = detectGesture l" by blast
    obtain g where g: "detectGesture l = Inr g" using detectGesture_total by blast
    have "g \<noteq> pointing"
      using g by (cases l) (auto simp: detectGesture_def calculateFingerDistance_def Let_def split: if_splits)
    then have "g \<in> {none, fist, open_g, pinch}" by (cases g) simp_all
    then show "r \<in> Inr ` {none, fist, open_g, pinch}" using r g by simp
  qed
next
  have "detectGesture None = Inr none" by (simp add: detectGesture_def)
  moreover have "detectGesture (Some fistHand) = Inr fist" by (simp add: fistHand_def detectGesture_mkHand)
  moreover have "detectGesture (Some openHand) = Inr open_g" by (simp add: openHand_def detectGesture_mkHand)
  moreover note detectGesture_pinchHand
  ultimately have "Inr none \<in> range detectGesture" "Inr fist \<in> range detectGesture"
     "Inr open_g \<in> range detectGesture" "Inr pinch \<in> range detectGesture"
    by (metis rangeI)+
  then show "Inr ` {none, fist, open_g, pinch} \<subseteq> range detectGesture" by auto
qed

text \<open>
  Claim C10: for every input, \<open>detectGesture\<close> never returns \<open>pointing\<close>; the labels it
  does return are exactly \<open>none\<close>, \<open>fist\<close>, \<open>open\<close> and \<open>pinch\<close>.
\<close>

theorem detectGesture_codomain:
  "detectGesture l \<noteq> Inr pointing
   \<and> range detectGesture = Inr ` {none, fist, open_g, pinch}"
proof -
  have "detectGesture l \<noteq> Inr pointing"
    by (cases l) (auto simp: detectGesture_def calculateFingerDistance_def Let_def)
  then show ?thesis using detectGesture_range by blast
qed

theorem detectGesture_codomain_witness:
  "detectGesture (Some pointingHand) \<noteq> Inr pointing"
  using detectGesture_codomain [of "Some pointingHand"] by blast

section \<open>Properties of the tracker callback\<close>

text \<open>
  Claim C8: on a callback without a hand (the landmark array is missing or empty),
  \<open>isTracking\<close> becomes false and \<open>handPosition\<close> becomes absent, while the gesture, the
  pinch distance and the last-gesture ref keep their values and \<open>onGestureChange\<close> is not
  called.
\<close>

theorem onResults_no_hand:
  assumes "results = None \<or> results = Some []"
  shows "\<exists>h1. onResults cb results h = Inr h1
           \<and> \<not> isTracking (hookState h1) \<and> handPosition (hookState h1) = None
           \<and> gesture (hookState h1) = gesture (hookState h)
           \<and> pinchDistance (hookState h1) = pinchDistance (hookState h)
           \<and> lastGestureRef h1 = lastGestureRef h
           \<and> gestureChanges h1 = gestureChanges h"
  using assms by (auto simp: onResults_def)

theorem onResults_no_hand_witness:
  "\<exists>h1. onResults True (Some []) initialHook = Inr h1
           \<and> \<not> isTracking (hookState h1) \<and> handPosition (hookState h1) = None
           \<and> gesture (hookState h1) = gesture (hookState initialHook)
           \<and> pinchDistance (hookState h1) = pinchDistance (hookState initialHook)
           \<and> lastGestureRef h1 = lastGestureRef initialHook
           \<and> gestureChanges h1 = gestureChanges initialHook"
  using onResults_no_hand [of "Some []" True initialHook] by simp

text \<open>
  A frame with a full hand: the ref takes the new label, and \<open>onGestureChange\<close> is called
  exactly when the label differs from the ref.
\<close>

lemma onResults_hand:
  assumes "21 \<le> length l" and "detectGesture (Some l) = Inr g"
  shows "\<exists>h1. onResults cb (Some (l # others)) h = Inr h1
           \<and> lastGestureRef h1 = g
           \<and> gesture (hookState h1) = g
           \<and> gestureChanges h1 = gestureChanges h @ (if cb \<and> g \<noteq> lastGestureRef h then [g] else [])"
  using assms by (simp add: onResults_def calculateFingerDistance_def Let_def)

text \<open>
  Over a run of full hands the calls are the changes of the label sequence: the sequence
  with the initial ref in front, adjacent repetitions removed, without its head.
\<close>

lemma runFrames_hands:
  assumes "\<forall>l\<in>set ls. 21 \<le> length l" and "map (\<lambda>l. detectGesture (Some l)) ls = map Inr gs"
  shows "\<exists>h1. runFrames cb h (map (\<lambda>l. Some [l]) ls) = Inr h1
           \<and> lastGestureRef h1 = last (lastGestureRef h # gs)
           \<and> gestureChanges h1 = gestureChanges h @ (if cb then tl (remdups_adj (lastGestureRef h # gs)) else [])"
  using assms
proof (induction ls arbitrary: gs h)
  case Nil
  then show ?case by simp
next
  case (Cons l ls)
  then obtain g gs' where gs: "gs = g # gs'" and g: "detectGesture (Some l) = Inr g"
    and rest: "map (\<lambda>l. detectGesture (Some l)) ls = map Inr gs'"
    by (cases gs) auto
  from Cons.prems(1) have len: "21 \<le> length l" and lens: "\<forall>l\<in>set ls. 21 \<le> length l" by simp_all
  from onResults_hand [OF len g, of cb "[]" h] obtain h1 where
    h1: "onResults cb (Some [l]) h = Inr h1" "lastGestureRef h1 = g"
      "gestureChanges h1 = gestureChanges h @ (if cb \<and> g \<noteq> lastGestureRef h then [g] else [])"
    by blast
  from Cons.IH [OF lens rest, of h1] obtain h2 where
    h2: "runFrames cb h1 (map (\<lambda>l. Some [l]) ls) = Inr h2"
      "lastGestureRef h2 = last (lastGestureRef h1 # gs')"
      "gestureChanges h2 = gestureChanges h1 @ (if cb then tl (remdups_adj (lastGestureRef h1 # gs')) else [])"
    by blast
  show ?case using h1 h2 gs by auto
qed

text \<open>
  Claim C2: starting from the stored label \<open>none\<close>, six frames classified fist, fist,
  fist, open, open, fist call \<open>onGestureChange\<close> exactly three times, with fist, open and
  fist; and after every frame of the run the stored label is the most recent
  classification.
\<close>

theorem gesture_change_fires_three_times:
  assumes "map (\<lambda>l. detectGesture (Some l)) ls = map Inr [fist, fist, fist, open_g, open_g, fist]"
  shows "(\<exists>h. runFrames True initialHook (map (\<lambda>l. Some [l]) ls) = Inr h
            \<and> gestureChanges h = [fist, open_g, fist] \<and> length (gestureChanges h) = 3)
       \<and> (\<forall>n. \<exists>h. runFrames True initialHook (map (\<lambda>l. Some [l]) (take n ls)) = Inr h
            \<and> lastGestureRef h = last (none # take n [fist, fist, fist, open_g, open_g, fist])
            \<and> gestureChanges h = tl (remdups_adj (none # take n [fist, fist, fist, open_g, open_g, fist])))"
proof -
  let ?gs = "[fist, fist, fist, open_g, open_g, fist]"
  have len: "\<forall>l\<in>set ls. 21 \<le> length l"
  proof
    fix l assume "l \<in> set ls"
    then have "detectGesture (Some l) \<in> set (map (\<lambda>l. detectGesture (Some l)) ls)" by simp
    then have "detectGesture (Some l) = Inr fist \<or> detectGesture (Some l) = Inr open_g"
      unfolding assms by auto
    then show "21 \<le> length l" using detectGesture_short by fastforce
  qed
  have prefix: "\<exists>h. runFrames True initialHook (map (\<lambda>l. Some [l]) (take n ls)) = Inr h
            \<and> lastGestureRef h = last (none # take n ?gs)
            \<and> gestureChanges h = tl (remdups_adj (none # take n ?gs))" for n
  proof -
    have a: "\<forall>l\<in>set (take n ls). 21 \<le> length l" using len by (meson in_set_takeD)
    have b: "map (\<lambda>l. detectGesture (Some l)) (take n ls) = map Inr (take n ?gs)"
      using assms by (simp only: take_map [symmetric])
    show ?thesis using runFrames_hands [OF a b, of True initialHook]
      by (simp add: initialHook_def)
  qed
  have "length ls = 6" using arg_cong [OF assms, of length] by simp
  then have "take 6 ls = ls" by simp
  with prefix [of 6] have "\<exists>h. runFrames True initialHook (map (\<lambda>l. Some [l]) ls) = Inr h
            \<and> gestureChanges h = [fist, open_g, fist] \<and> length (gestureChanges h) = 3"
    by auto
  then show ?thesis using prefix by blast
qed

lemma six_frames_classified:
  "map (\<lambda>l. detectGesture (Some l)) sixFrames = map Inr [fist, fist, fist, open_g, open_g, fist]"
  by (simp add: sixFrames_def fistHand_def openHand_def detectGesture_mkHand)

theorem gesture_change_fires_three_times_witness:
  "map (\<lambda>l. detectGesture (Some l)) sixFrames = map Inr [fist, fist, fist, open_g, open_g, fist]
   \<and> (\<exists>h. runFrames True initialHook (map (\<lambda>l. Some [l]) sixFrames) = Inr h
            \<and> gestureChanges h = [fist, open_g, fist] \<and> length (gestureChanges h) = 3)"
  using gesture_change_fires_three_times [OF six_frames_classified] six_frames_classified
  by blast

section \<open>Properties of the photo-card spring\<close>

text \<open>The settle test compares squares: no square root is needed to decide it.\<close>

lemma sqrt_below_tolerance: "sqrt a < 0.01 \<longleftrightarrow> a < 0.0001"
proof -
  have "sqrt (0.0001::real) = 0.01"
    by (rule real_sqrt_unique) (simp_all add: power2_eq_square)
  then have "sqrt a < 0.01 \<longleftrightarrow> sqrt a < sqrt 0.0001" by (simp only:)
  also have "\<dots> \<longleftrightarrow> a < 0.0001" by (rule real_sqrt_less_iff)
  finally show ?thesis .
qed

lemma settled_iff:
  "settled props spring \<longleftrightarrow>
     distanceToSquared (position spring) (targetPos props) < 0.0001
     \<and> \<bar>scale spring - targetScale props\<bar> < 0.01
     \<and> vx (velocity spring) * vx (velocity spring) + vy (velocity spring) * vy (velocity spring)
         + vz (velocity spring) * vz (velocity spring) < 0.0001"
  by (simp only: settled_def Let_def distanceTo_def length_v_def sqrt_below_tolerance)

text \<open>
  What one frame does to the spring state: nothing when the group is not mounted or the
  card is settled, one integration step with the clamped frame time otherwise.
\<close>

lemma meshRef_useFrame: "meshRef r \<noteq> None \<Longrightarrow> meshRef (PhotoCardMesh_useFrame props delta r) \<noteq> None"
  by (auto simp: PhotoCardMesh_useFrame_def Let_def)

lemma springRef_useFrame:
  "springRef (PhotoCardMesh_useFrame props delta r) =
     (if meshRef r = None \<or> settled props (springRef r) then springRef r
      else springStep props (min delta 0.033) (springRef r))"
  by (cases "meshRef r") (simp_all add: PhotoCardMesh_useFrame_def Let_def)

lemma springStep_zero: "springStep props 0 spring = spring"
  by (simp add: springStep_def Let_def add_v_def multiplyScalar_def)

lemma unsettled_step:
  assumes "delta \<le> 0.033" and "meshRef r \<noteq> None" and "\<not> settled props (springRef r)"
  shows "springRef (PhotoCardMesh_useFrame props delta r) = springStep props delta (springRef r)"
  using assms by (auto simp add: springRef_useFrame min_def)

lemma springRef_frames:
  assumes "meshRef r \<noteq> None"
  shows "springRef (PhotoCardMesh_frames props ds r) =
     foldl (\<lambda>s d. if settled props s then s else springStep props (min d 0.033) s) (springRef r) ds"
  using assms
proof (induction ds arbitrary: r)
  case Nil
  show ?case by simp
next
  case (Cons d ds)
  let ?F = "\<lambda>s d. if settled props s then s else springStep props (min d 0.033) s"
  have m: "meshRef (PhotoCardMesh_useFrame props d r) \<noteq> None"
    using Cons.prems by (rule meshRef_useFrame)
  have "springRef (PhotoCardMesh_frames props (d # ds) r)
      = springRef (PhotoCardMesh_frames props ds (PhotoCardMesh_useFrame props d r))"
    by simp
  also have "\<dots> = foldl ?F (springRef (PhotoCardMesh_useFrame props d r)) ds"
    by (rule Cons.IH [OF m])
  also have "springRef (PhotoCardMesh_useFrame props d r) = ?F (springRef r) d"
    using Cons.prems by (auto simp add: springRef_useFrame)
  finally show ?case by simp
qed

lemma foldl_replicate: "foldl f s (replicate n c) = ((\<lambda>s. f s c) ^^ n) s"
proof (induction n arbitrary: s)
  case 0
  show ?case by simp
next
  case (Suc n)
  show ?case using Suc.IH [of "f s c"] funpow_swap1 [of "\<lambda>s. f s c" n s] by simp
qed

text \<open>The card of the scenario: one unit from its target, at rest, not settled.\<close>

lemma card_unsettled: "\<not> settled cardProps (springRef cardRefs)"
  by (simp add: settled_iff cardProps_def cardRefs_def targetPos_def
      targetScale_def Vector3_new_def distanceToSquared_def)

lemma card_back_step:
  "springStep cardProps (- 0.01) (springRef cardRefs) =
     \<lparr>position = \<lparr>vx = 0.9975, vy = 0, vz = 0\<rparr>, velocity = \<lparr>vx = 0.25, vy = 0, vz = 0\<rparr>,
      scale = 0.4, scaleVelocity = 0\<rparr>"
  by (simp add: cardProps_def cardRefs_def targetPos_def targetScale_def Vector3_new_def
      springStep_def Let_def subVectors_def multiplyScalar_def add_v_def
      SPRING_STIFFNESS_def SPRING_DAMPING_def SCALE_STIFFNESS_def SCALE_DAMPING_def)

lemma card_spring_step:
  "(if settled cardProps \<lparr>position = \<lparr>vx = a, vy = 0, vz = 0\<rparr>, velocity = \<lparr>vx = v, vy = 0, vz = 0\<rparr>,
        scale = 2 / 5, scaleVelocity = 0\<rparr>
    then \<lparr>position = \<lparr>vx = a, vy = 0, vz = 0\<rparr>, velocity = \<lparr>vx = v, vy = 0, vz = 0\<rparr>,
        scale = 2 / 5, scaleVelocity = 0\<rparr>
    else springStep cardProps (1 / 32) \<lparr>position = \<lparr>vx = a, vy = 0, vz = 0\<rparr>,
        velocity = \<lparr>vx = v, vy = 0, vz = 0\<rparr>, scale = 2 / 5, scaleVelocity = 0\<rparr>)
   = (if a * a < 1 / 10000 \<and> v * v < 1 / 10000
      then \<lparr>position = \<lparr>vx = a, vy = 0, vz = 0\<rparr>, velocity = \<lparr>vx = v, vy = 0, vz = 0\<rparr>,
        scale = 2 / 5, scaleVelocity = 0\<rparr>
      else \<lparr>position = \<lparr>vx = a + (v + (- 25 * a - 8 * v) / 32) / 32, vy = 0, vz = 0\<rparr>,
            velocity = \<lparr>vx = v + (- 25 * a - 8 * v) / 32, vy = 0, vz = 0\<rparr>,
        scale = 2 / 5, scaleVelocity = 0\<rparr>)"
  by (simp add: settled_iff cardProps_def targetPos_def targetScale_def Vector3_new_def
      distanceToSquared_def springStep_def Let_def subVectors_def multiplyScalar_def add_v_def
      SPRING_STIFFNESS_def SPRING_DAMPING_def SCALE_STIFFNESS_def SCALE_DAMPING_def algebra_simps)

lemma resting_settled: "settled cardProps (springRef restingRefs)"
  by (simp add: settled_iff cardProps_def restingRefs_def cardRefs_def targetPos_def
      targetScale_def Vector3_new_def distanceToSquared_def)

text \<open>
  Claim C3 says that a frame with zero or negative delta-time leaves the spring state
  unchanged. With \<open>delta = -0.01\<close> the card of the scenario moves: the frame time is only
  clamped from above, and the step runs with \<open>dt = -0.01\<close>.
\<close>

theorem negative_delta_moves_spring:
  "(- 0.01 :: real) \<le> 0
   \<and> springRef (PhotoCardMesh_useFrame cardProps (- 0.01) cardRefs) \<noteq> springRef cardRefs
   \<and> vx (position (springRef (PhotoCardMesh_useFrame cardProps (- 0.01) cardRefs))) = 0.9975"
proof -
  have m: "meshRef cardRefs \<noteq> None" by (simp add: cardRefs_def)
  have "springRef (PhotoCardMesh_useFrame cardProps (- 0.01) cardRefs)
      = springStep cardProps (- 0.01) (springRef cardRefs)"
    by (rule unsettled_step [OF _ m card_unsettled]) simp
  then have e: "springRef (PhotoCardMesh_useFrame cardProps (- 0.01) cardRefs) =
     \<lparr>position = \<lparr>vx = 0.9975, vy = 0, vz = 0\<rparr>, velocity = \<lparr>vx = 0.25, vy = 0, vz = 0\<rparr>,
      scale = 0.4, scaleVelocity = 0\<rparr>"
    by (simp only: card_back_step)
  have "vx (position (springRef cardRefs)) = 1" by (simp add: cardRefs_def)
  moreover have "vx (position (springRef (PhotoCardMesh_useFrame cardProps (- 0.01) cardRefs))) = 0.9975"
    unfolding e by simp
  ultimately show ?thesis by auto
qed

text \<open>
  Claim C3, amended: a frame with delta-time zero leaves the spring state unchanged.
  A frame time of at most 0.033, negative ones included, is used as it is: on an
  unsettled, mounted card the spring state after the frame is the integration step with
  \<open>dt = delta\<close>.
\<close>

theorem zero_delta_keeps_spring:
  "springRef (PhotoCardMesh_useFrame props 0 r) = springRef r
   \<and> (delta \<le> 0.033 \<and> meshRef r \<noteq> None \<and> \<not> settled props (springRef r) \<longrightarrow>
        springRef (PhotoCardMesh_useFrame props delta r) = springStep props delta (springRef r))"
  using unsettled_step [of delta r props] by (simp add: springRef_useFrame springStep_zero)

theorem zero_delta_keeps_spring_witness:
  "springRef (PhotoCardMesh_useFrame cardProps 0 cardRefs) = springRef cardRefs
   \<and> (- 0.01 :: real) \<le> 0.033 \<and> meshRef cardRefs \<noteq> None \<and> \<not> settled cardProps (springRef cardRefs)
   \<and> springRef (PhotoCardMesh_useFrame cardProps (- 0.01) cardRefs)
        = springStep cardProps (- 0.01) (springRef cardRefs)"
proof -
  have m: "meshRef cardRefs \<noteq> None" by (simp add: cardRefs_def)
  have d: "(- 0.01 :: real) \<le> 0.033" by simp
  show ?thesis
    using zero_delta_keeps_spring [of cardProps cardRefs "- 0.01"] m d card_unsettled by blast
qed

text \<open>A settled card stays settled, and its rendered group only bobs.\<close>

lemma settled_frames:
  "settled props (springRef r) \<Longrightarrow> springRef (PhotoCardMesh_frames props deltas r) = springRef r"
  by (induction deltas arbitrary: r) (simp_all add: springRef_useFrame)

lemma settled_mesh:
  assumes "settled props (springRef r)" and "meshRef r = Some m"
  shows "\<exists>m1. meshRef (PhotoCardMesh_useFrame props delta r) = Some m1
           \<and> meshScale m1 = meshScale m
           \<and> vx (meshPosition m1) = vx (meshPosition m)
           \<and> vz (meshPosition m1) = vz (meshPosition m)
           \<and> (vy (meshPosition m1) = vy (meshPosition m)
              \<or> \<bar>vy (meshPosition m1) - vy (position (springRef r))\<bar> \<le> 0.005)"
proof -
  have "\<bar>sin t * 0.005\<bar> \<le> 0.005" for t :: real
    using abs_sin_le_one [of t] by (simp add: abs_mult)
  then show ?thesis using assms
    by (simp add: PhotoCardMesh_useFrame_def Let_def)
qed

text \<open>
  Claim C6: on a frame where position error, scale error and velocity magnitude are all
  below 0.01, the spring state is not changed, and so it is not changed by any number of
  further frames with the same props. The rendered group keeps its scale and its \<open>x\<close>
  and \<open>z\<close>; its \<open>y\<close> is either kept or set to the spring's \<open>y\<close> plus a bob of at most
  0.005.
\<close>

theorem settled_frame_keeps_spring:
  assumes "settled props (springRef r)"
  shows "springRef (PhotoCardMesh_useFrame props delta r) = springRef r
       \<and> springRef (PhotoCardMesh_frames props deltas r) = springRef r
       \<and> (\<forall>m. meshRef r = Some m \<longrightarrow>
            (\<exists>m1. meshRef (PhotoCardMesh_useFrame props delta r) = Some m1
               \<and> meshScale m1 = meshScale m
               \<and> vx (meshPosition m1) = vx (meshPosition m)
               \<and> vz (meshPosition m1) = vz (meshPosition m)
               \<and> (vy (meshPosition m1) = vy (meshPosition m)
                  \<or> \<bar>vy (meshPosition m1) - vy (position (springRef r))\<bar> \<le> 0.005)))"
  using assms settled_frames [OF assms] settled_mesh [OF assms]
  by (simp add: springRef_useFrame)

theorem settled_frame_keeps_spring_witness:
  "settled cardProps (springRef restingRefs)
   \<and> springRef (PhotoCardMesh_frames cardProps [0.016, 0.016, 0.016, 0.016] restingRefs)
       = springRef restingRefs
   \<and> (\<exists>m1. meshRef (PhotoCardMesh_useFrame cardProps 0.016 restingRefs) = Some m1
         \<and> meshScale m1 = \<lparr>vx = 0.5, vy = 0.5, vz = 1\<rparr>
         \<and> vx (meshPosition m1) = 1)"
proof -
  note t = settled_frame_keeps_spring [OF resting_settled, of "0.016" "[0.016, 0.016, 0.016, 0.016]"]
  have m: "meshRef restingRefs = Some \<lparr>meshPosition = \<lparr>vx = 1, vy = 0, vz = 0\<rparr>,
                       meshScale = \<lparr>vx = 0.5, vy = 0.5, vz = 1\<rparr>\<rparr>"
    by (simp add: restingRefs_def cardRefs_def)
  from t have a: "springRef (PhotoCardMesh_frames cardProps [0.016, 0.016, 0.016, 0.016] restingRefs)
       = springRef restingRefs" by blast
  from t m obtain m1 where "meshRef (PhotoCardMesh_useFrame cardProps 0.016 restingRefs) = Some m1"
    and "meshScale m1 = \<lparr>vx = 0.5, vy = 0.5, vz = 1\<rparr>" and "vx (meshPosition m1) = 1"
    by fastforce
  then show ?thesis using resting_settled a by blast
qed

text \<open>
  Thirty frames of 1/32 from rest, one unit on the positive side of the target: the
  card ends on the negative side.
\<close>

lemma overshoot:
  "vx (position (springRef (PhotoCardMesh_frames cardProps (replicate 30 (1/32)) cardRefs))) < 0"
proof -
  define G where "G = (\<lambda>s. if settled cardProps s then s else springStep cardProps (min (1/32) 0.033) s)"
  have m: "meshRef cardRefs \<noteq> None" by (simp add: cardRefs_def)
  have s: "springRef cardRefs = \<lparr>position = \<lparr>vx = 1, vy = 0, vz = 0\<rparr>, velocity = \<lparr>vx = 0, vy = 0, vz = 0\<rparr>,
        scale = 0.4, scaleVelocity = 0\<rparr>" by (simp add: cardRefs_def)
  have G: "G \<lparr>position = \<lparr>vx = a, vy = 0, vz = 0\<rparr>, velocity = \<lparr>vx = v, vy = 0, vz = 0\<rparr>,
        scale = 2 / 5, scaleVelocity = 0\<rparr> =
     (if a * a < 1 / 10000 \<and> v * v < 1 / 10000
      then \<lparr>position = \<lparr>vx = a, vy = 0, vz = 0\<rparr>, velocity = \<lparr>vx = v, vy = 0, vz = 0\<rparr>,
        scale = 2 / 5, scaleVelocity = 0\<rparr>
      else \<lparr>position = \<lparr>vx = a + (v + (- 25 * a - 8 * v) / 32) / 32, vy = 0, vz = 0\<rparr>,
            velocity = \<lparr>vx = v + (- 25 * a - 8 * v) / 32, vy = 0, vz = 0\<rparr>,
        scale = 2 / 5, scaleVelocity = 0\<rparr>)" for a v
  proof -
    have d: "min (1/32) (0.033::real) = 1/32" by simp
    show ?thesis unfolding G_def d by (rule card_spring_step)
  qed
  have "springRef (PhotoCardMesh_frames cardProps (replicate 30 (1/32)) cardRefs)
      = (G ^^ 30) (springRef cardRefs)"
    unfolding springRef_frames [OF m] foldl_replicate G_def ..
  also have "vx (position ((G ^^ 30) (springRef cardRefs))) < 0"
    unfolding s by (simp add: numeral_eq_Suc G)
  finally show ?thesis .
qed

lemma damping_ratios:
  "SPRING_DAMPING / (2 * sqrt SPRING_STIFFNESS) = 4 / 5
   \<and> SCALE_DAMPING / (2 * sqrt SCALE_STIFFNESS) < 1"
proof -
  have "sqrt (25::real) = 5" by (rule real_sqrt_unique) simp_all
  then have a: "SPRING_DAMPING / (2 * sqrt SPRING_STIFFNESS) = 4 / 5"
    by (simp add: SPRING_STIFFNESS_def SPRING_DAMPING_def)
  have "5 < sqrt (30::real)" by (rule real_less_rsqrt) simp
  then have b: "SCALE_DAMPING / (2 * sqrt SCALE_STIFFNESS) < 1"
    by (simp add: SCALE_STIFFNESS_def SCALE_DAMPING_def)
  show ?thesis using a b by blast
qed

text \<open>
  Claim C4 says that both springs have damping ratio at least 1, that is
  \<open>damping\<^sup>2 \<ge> 4 * stiffness\<close>. Neither has: 64 is below 100 and 100 is below 120.
\<close>

theorem springs_not_critically_damped:
  "\<not> (SPRING_DAMPING\<^sup>2 \<ge> 4 * SPRING_STIFFNESS) \<and> \<not> (SCALE_DAMPING\<^sup>2 \<ge> 4 * SCALE_STIFFNESS)"
  by (simp add: SPRING_STIFFNESS_def SPRING_DAMPING_def SCALE_STIFFNESS_def SCALE_DAMPING_def)

text \<open>
  Claim C4, amended: both springs are underdamped, \<open>damping\<^sup>2 < 4 * stiffness\<close>, with
  damping ratio 4/5 for the position and below 1 for the scale, and the integrated
  motion does overshoot: released at rest at \<open>x = 1\<close> with target \<open>x = 0\<close>, the card is
  at a negative \<open>x\<close> after thirty frames of 1/32.
\<close>

theorem springs_underdamped:
  "SPRING_DAMPING\<^sup>2 < 4 * SPRING_STIFFNESS \<and> SCALE_DAMPING\<^sup>2 < 4 * SCALE_STIFFNESS
   \<and> SPRING_DAMPING / (2 * sqrt SPRING_STIFFNESS) = 4 / 5
   \<and> SCALE_DAMPING / (2 * sqrt SCALE_STIFFNESS) < 1
   \<and> vx (position (springRef cardRefs)) = 1 \<and> vx (targetPos cardProps) = 0
   \<and> vx (position (springRef (PhotoCardMesh_frames cardProps (replicate 30 (1/32)) cardRefs))) < 0"
proof -
  have "SPRING_DAMPING\<^sup>2 < 4 * SPRING_STIFFNESS \<and> SCALE_DAMPING\<^sup>2 < 4 * SCALE_STIFFNESS"
    by (simp add: SPRING_STIFFNESS_def SPRING_DAMPING_def SCALE_STIFFNESS_def SCALE_DAMPING_def)
  moreover have "vx (position (springRef cardRefs)) = 1 \<and> vx (targetPos cardProps) = 0"
    by (simp add: cardRefs_def cardProps_def targetPos_def Vector3_new_def)
  ultimately show ?thesis using damping_ratios overshoot by blast
qed

theorem springs_underdamped_witness:
  "SPRING_DAMPING\<^sup>2 < 4 * SPRING_STIFFNESS
   \<and> vx (position (springRef (PhotoCardMesh_frames cardProps (replicate 30 (1/32)) cardRefs))) < 0"
  using springs_underdamped by blast

section \<open>Properties of the particle interpolation\<close>

text \<open>
  Claim C5: for a particle with delay 0.2, tree position (1, 2, 3) and galaxy position
  (4, 5, 6), the interpolation gives exactly (4, 5, 6) at progress 1 and exactly
  (1, 2, 3) at progress 0; the position written to the mesh differs from it only by the
  breathing offset on \<open>y\<close>, of at most 0.02.
\<close>

theorem particle_reaches_endpoints:
  "staggeredLerp 1 (scenarioParticle ph sp) = (4, 5, 6)
   \<and> staggeredLerp 0 (scenarioParticle ph sp) = (1, 2, 3)
   \<and> (\<exists>b. snd (ParticleSystem_useFrame 1 delta [scenarioParticle ph sp] time0) = [(4, 5 + b, 6)]
          \<and> \<bar>b\<bar> \<le> 0.02)
   \<and> (\<exists>b. snd (ParticleSystem_useFrame 0 delta [scenarioParticle ph sp] time0) = [(1, 2 + b, 3)]
          \<and> \<bar>b\<bar> \<le> 0.02)"
proof -
  have a: "staggeredLerp 1 (scenarioParticle ph sp) = (4, 5, 6)"
    by (simp add: staggeredLerp_def scenarioParticle_def Let_def)
  have b: "staggeredLerp 0 (scenarioParticle ph sp) = (1, 2, 3)"
    by (simp add: staggeredLerp_def scenarioParticle_def Let_def)
  have s: "\<bar>sin t * 0.02\<bar> \<le> 0.02" for t :: real
    using abs_sin_le_one [of t] by (simp add: abs_mult)
  let ?b = "sin ((time0 + delta) * speed (scenarioParticle ph sp) + phase (scenarioParticle ph sp)) * 0.02"
  have c: "snd (ParticleSystem_useFrame 1 delta [scenarioParticle ph sp] time0) = [(4, 5 + ?b, 6)]"
    by (simp add: a ParticleSystem_useFrame_def Let_def)
  have d: "snd (ParticleSystem_useFrame 0 delta [scenarioParticle ph sp] time0) = [(1, 2 + ?b, 3)]"
    by (simp add: b ParticleSystem_useFrame_def Let_def)
  show ?thesis using a b c d s by blast
qed

theorem particle_reaches_endpoints_witness:
  "staggeredLerp 1 (scenarioParticle 0 1) = (4, 5, 6)
   \<and> staggeredLerp 0 (scenarioParticle 0 1) = (1, 2, 3)"
  using particle_reaches_endpoints [of 0 1] by blast

section \<open>Properties of the camera filter\<close>

lemma filter_halves:
  fixes p t dt :: real
  shows "p + (t - p) * (1 - exp (- 4 * dt)) =
         (p + (t - p) * (1 - exp (- 4 * (dt / 2))))
           + (t - (p + (t - p) * (1 - exp (- 4 * (dt / 2))))) * (1 - exp (- 4 * (dt / 2)))"
proof -
  have "exp (- 4 * dt) = exp (- 4 * (dt / 2)) * exp (- 4 * (dt / 2))"
    by (simp add: exp_add [symmetric])
  then show ?thesis by (simp add: algebra_simps)
qed

text \<open>
  Claim C7: with fixed props, hence a fixed target, one frame of \<open>dt\<close> moves the camera
  to the same position as two successive frames of \<open>dt / 2\<close>.
\<close>

theorem camera_filter_step_halving:
  "CameraController_useFrame props dt positionRef =
     CameraController_useFrame props (dt / 2) (CameraController_useFrame props (dt / 2) positionRef)"
  unfolding CameraController_useFrame_def Let_def
  by (simp only: Vector3.simps filter_halves [symmetric])

theorem camera_filter_step_halving_witness:
  "CameraController_useFrame
      \<lparr>cameraState = galaxy, orbitRotation = (0, 0), cameraHandPosition = Some (3/4, 1/4)\<rparr>
      (1/30) \<lparr>vx = 0, vy = 2, vz = 12\<rparr> =
   CameraController_useFrame
      \<lparr>cameraState = galaxy, orbitRotation = (0, 0), cameraHandPosition = Some (3/4, 1/4)\<rparr>
      (1/60)
      (CameraController_useFrame
         \<lparr>cameraState = galaxy, orbitRotation = (0, 0), cameraHandPosition = Some (3/4, 1/4)\<rparr>
         (1/60) \<lparr>vx = 0, vy = 2, vz = 12\<rparr>)"
  using camera_filter_step_halving
    [of "\<lparr>cameraState = galaxy, orbitRotation = (0, 0), cameraHandPosition = Some (3/4, 1/4)\<rparr>"
        "1/30" "\<lparr>vx = 0, vy = 2, vz = 12\<rparr>"]
  by simp

section \<open>Properties of the ornament layout\<close>

text \<open>
  Claim C9 says that two calls with the same index and total give the same position.
  The azimuth has a random term: for index 0 of 35, the draws 0 and 1/2 give different
  positions.
\<close>

theorem ornament_position_depends_on_draw:
  "(0::real) \<le> 0 \<and> (0::real) < 1 \<and> (0::real) \<le> 1/2 \<and> (1/2::real) < 1
   \<and> generateOrnamentPosition 0 35 0 \<noteq> generateOrnamentPosition 0 35 (1/2)"
proof -
  have "0 < sin (1/4 :: real)" by (rule sin_gt_zero_02) simp_all
  then show ?thesis
    by (simp add: generateOrnamentPosition_def ornamentAngle_def Let_def)
qed

text \<open>
  Claim C9, amended: the azimuth is the fixed increment \<open>index * 2.4\<pi>\<close> plus a random
  jitter in the interval from 0 (included) to 0.5 (excluded). Two calls with the same
  index and total give the same height and the same distance from the axis, and
  azimuths less than 0.5 apart.
\<close>

theorem ornament_azimuth_jitter:
  assumes "0 < n" and "0 \<le> r1" and "r1 < 1" and "0 \<le> r2" and "r2 < 1"
  shows "fst (snd (generateOrnamentPosition i n r1)) = fst (snd (generateOrnamentPosition i n r2))
       \<and> (fst (generateOrnamentPosition i n r1))\<^sup>2 + (snd (snd (generateOrnamentPosition i n r1)))\<^sup>2
         = (fst (generateOrnamentPosition i n r2))\<^sup>2 + (snd (snd (generateOrnamentPosition i n r2)))\<^sup>2
       \<and> 0 \<le> ornamentAngle i r1 - real i * pi * 2.4
       \<and> ornamentAngle i r1 - real i * pi * 2.4 < 0.5
       \<and> \<bar>ornamentAngle i r1 - ornamentAngle i r2\<bar> < 0.5"
proof -
  have sq: "(cos a * c)\<^sup>2 + (sin a * c)\<^sup>2 = c\<^sup>2" for a c :: real
  proof -
    have "(cos a * c)\<^sup>2 + (sin a * c)\<^sup>2 = ((cos a)\<^sup>2 + (sin a)\<^sup>2) * c\<^sup>2"
      by (simp only: power_mult_distrib distrib_right)
    also have "\<dots> = c\<^sup>2" by (simp only: sin_cos_squared_add2 mult_1)
    finally show ?thesis .
  qed
  have rad: "(fst (generateOrnamentPosition i n r))\<^sup>2 + (snd (snd (generateOrnamentPosition i n r)))\<^sup>2
      = (3.2 * (1 - (real i + 0.5) / real n * 0.9) * 0.85)\<^sup>2" for r
    using sq [of "ornamentAngle i r" "3.2 * (1 - (real i + 0.5) / real n * 0.9) * 0.85"]
    by (simp add: generateOrnamentPosition_def Let_def mult.assoc)
  have y: "fst (snd (generateOrnamentPosition i n r1)) = fst (snd (generateOrnamentPosition i n r2))"
    by (simp add: generateOrnamentPosition_def Let_def)
  have ang: "0 \<le> ornamentAngle i r1 - real i * pi * 2.4"
    "ornamentAngle i r1 - real i * pi * 2.4 < 0.5"
    "\<bar>ornamentAngle i r1 - ornamentAngle i r2\<bar> < 0.5"
    using assms by (simp_all add: ornamentAngle_def abs_if)
  show ?thesis using y ang by (simp only: rad)
qed

theorem ornament_azimuth_jitter_witness:
  "(0::real) \<le> 0 \<and> (0::real) < 1 \<and> (0::real) \<le> 1/2 \<and> (1/2::real) < 1
   \<and> (0::nat) < 35
   \<and> fst (snd (generateOrnamentPosition 0 35 0)) = fst (snd (generateOrnamentPosition 0 35 (1/2)))
   \<and> \<bar>ornamentAngle 0 0 - ornamentAngle 0 (1/2)\<bar> < 0.5"
  using ornament_azimuth_jitter [of 35 0 "1/2" 0] by simp

end
